theory Spec2Isabelle
  imports Complex_Main
begin

section \<open>The experiment harness of high\_dimensional\_sampling/experiments.py\<close>

text \<open>
  A shallow embedding of the classes \<^verbatim>\<open>Experiment\<close>, \<^verbatim>\<open>OptimisationExperiment\<close>,
  \<^verbatim>\<open>OptimizationExperiment\<close>, \<^verbatim>\<open>PosteriorSamplingExperiment\<close> and \<^verbatim>\<open>Logger\<close>.
  Python exceptions are values of \<open>error\<close>; a method that mutates its instance returns the
  instance it leaves behind, also when it raises. The module imports \<^verbatim>\<open>ABC\<close> from
  \<^verbatim>\<open>abc\<close>, so the language is Python 3: ordering comparisons with \<^verbatim>\<open>None\<close> raise
  \<^verbatim>\<open>TypeError\<close>.
\<close>

subsection \<open>Errors and numbers\<close>

datatype error =
    TypeError
  | ValueError
  | IndexError
  | AttributeError
  | Exception
  | ExternalError string

text \<open>
  Samples and function values are numpy \<^verbatim>\<open>float64\<close> numbers. They are modelled as reals:
  rounding is not modelled. What numpy's division returns for a zero divisor (an infinity
  or a nan, with a warning and no exception) is kept, since HOL's \<open>a / 0 = 0\<close> would hide
  it; a negative zero is not distinguished from zero.
\<close>

datatype npfloat = Finite real | PosInf | NegInf | NaN

definition np_true_divide :: "real \<Rightarrow> real \<Rightarrow> npfloat" where
  "np_true_divide a b =
     (if b \<noteq> 0 then Finite (a / b)
      else if 0 < a then PosInf
      else if a < 0 then NegInf
      else NaN)"

fun np_greater :: "npfloat \<Rightarrow> real \<Rightarrow> bool" where
  "np_greater (Finite r) e = (e < r)"
| "np_greater PosInf e = True"
| "np_greater NegInf e = False"
| "np_greater NaN e = False"

text \<open>\<^verbatim>\<open>np.min(y)\<close> over all entries of the two-dimensional array \<open>y\<close>; numpy raises
  \<^verbatim>\<open>ValueError\<close> for an array with no entries.\<close>

definition np_min :: "real list list \<Rightarrow> error + real" where
  "np_min ys = (case concat ys of [] \<Rightarrow> Inl ValueError | v # vs \<Rightarrow> Inr (fold min vs v))"

definition len :: "'a list \<Rightarrow> int" where
  "len xs = int (length xs)"

subsection \<open>The Logger's data\<close>

text \<open>A file handle opened for writing: whether it has been closed, and the strings
  written to it, one per \<^verbatim>\<open>write\<close> call, in order.\<close>

record handle =
  closed :: bool
  written :: "string list"

record logger =
  basepath :: string
  path :: string
  method_calls :: int
  create_samples_header :: bool
  handle_samples :: handle
  handle_functioncalls :: handle
  handle_methodcalls :: handle

subsection \<open>Classes and attribute lookup\<close>

datatype class_name =
    Experiment
  | OptimisationExperiment
  | OptimizationExperiment
  | PosteriorSamplingExperiment

datatype member =
    M_init
  | M_perform_experiment
  | M_run
  | M_stop_experiment
  | M_sampled_since_last_improvement

text \<open>The members each class statement defines itself. The body of
  \<^verbatim>\<open>OptimizationExperiment\<close> is \<^verbatim>\<open>pass\<close>.\<close>

fun class_body :: "class_name \<Rightarrow> member list" where
  "class_body Experiment = [M_init, M_perform_experiment, M_run, M_stop_experiment]"
| "class_body OptimisationExperiment =
     [M_run, M_stop_experiment, M_sampled_since_last_improvement]"
| "class_body OptimizationExperiment = []"
| "class_body PosteriorSamplingExperiment = [M_run, M_stop_experiment]"

text \<open>The method resolution order (single inheritance; \<^verbatim>\<open>ABC\<close> and \<^verbatim>\<open>object\<close>
  define none of the members above and are left out).\<close>

fun mro :: "class_name \<Rightarrow> class_name list" where
  "mro Experiment = [Experiment]"
| "mro OptimisationExperiment = [OptimisationExperiment, Experiment]"
| "mro OptimizationExperiment = [OptimizationExperiment, OptimisationExperiment, Experiment]"
| "mro PosteriorSamplingExperiment = [PosteriorSamplingExperiment, Experiment]"

text \<open>Looking a member up on an instance of class \<open>c\<close>: the first class of the
  resolution order whose body defines it.\<close>

definition resolve :: "class_name \<Rightarrow> member \<Rightarrow> class_name option" where
  "resolve c m = find (\<lambda>k. m \<in> set (class_body k)) (mro c)"

subsection \<open>Experiment instances\<close>

text \<open>
  The attribute \<^verbatim>\<open>logger\<close> is \<^verbatim>\<open>None\<close> after \<^verbatim>\<open>__init__\<close>, bound to a Logger during
  a run, and removed by \<^verbatim>\<open>del\<close>. The attribute \<^verbatim>\<open>path\<close> of an experiment is the field
  \<open>experiment_path\<close> (the Logger has a \<^verbatim>\<open>path\<close> of its own). The attribute \<^verbatim>\<open>n_sampled\<close> is \<^verbatim>\<open>None\<close> or a list of
  cumulative counts in an optimisation experiment and a single count in a posterior
  sampling experiment.
\<close>

datatype logger_attr = Deleted | IsNone | Bound logger

datatype n_sampled_value = NoneValue | CountList "int list" | Count int

record experiment_obj =
  cls :: class_name
  experiment_path :: string
  logger :: logger_attr
  epsilon :: real
  absolute_improvement :: bool
  patience :: int
  finish_line :: "int option"
  n_sampled :: n_sampled_value
  optimals :: "real list"

subsection \<open>The optimisation stopping criterion\<close>

text \<open>\<^verbatim>\<open>self.n_sampled[-1] - self.n_sampled[i]\<close> for an index \<open>i \<ge> 0\<close>.\<close>

definition n_sampled_since :: "experiment_obj \<Rightarrow> nat \<Rightarrow> error + int" where
  "n_sampled_since self i =
     (case n_sampled self of
        NoneValue \<Rightarrow> Inl TypeError
      | Count c \<Rightarrow> Inl TypeError
      | CountList ns \<Rightarrow>
          if ns = [] then Inl IndexError
          else if i < length ns then Inr (last ns - ns ! i)
          else Inl IndexError)"

text \<open>The quantity compared with \<^verbatim>\<open>epsilon\<close> for the entry \<open>opt\<close> of \<^verbatim>\<open>optimals\<close>.\<close>

definition condition :: "experiment_obj \<Rightarrow> real \<Rightarrow> real \<Rightarrow> npfloat" where
  "condition self cutv opt =
     (if absolute_improvement self then Finite (cutv - opt)
      else np_true_divide opt cutv)"

text \<open>The loop \<^verbatim>\<open>for i in range(len(self.optimals) - 2, 0, -1)\<close>, from index \<open>i\<close>
  downwards; index 0 is not visited, and falling out of the loop returns the count since
  entry 0.\<close>

fun scan_back :: "experiment_obj \<Rightarrow> real \<Rightarrow> nat \<Rightarrow> error + int" where
  "scan_back self cutv 0 = n_sampled_since self 0"
| "scan_back self cutv (Suc i) =
     (if Suc i < length (optimals self) then
        (if np_greater (condition self cutv (optimals self ! Suc i)) (epsilon self)
         then n_sampled_since self (Suc i)
         else scan_back self cutv i)
      else Inl IndexError)"

text \<open>For a single entry \<^verbatim>\<open>range(-1, 0, -1)\<close> is empty, as is \<^verbatim>\<open>range(0, 0, -1)\<close>: the
  truncated subtraction \<open>1 - 2 = 0\<close> on naturals starts the scan at 0, which visits
  nothing either.\<close>

definition OptimisationExperiment_sampled_since_last_improvement ::
  "experiment_obj \<Rightarrow> error + int" where
  "OptimisationExperiment_sampled_since_last_improvement self =
     (if optimals self = [] then Inl IndexError
      else scan_back self (last (optimals self)) (length (optimals self) - 2))"

definition sampled_since_last_improvement :: "experiment_obj \<Rightarrow> error + int" where
  "sampled_since_last_improvement self =
     (case resolve (cls self) M_sampled_since_last_improvement of
        Some OptimisationExperiment \<Rightarrow>
          OptimisationExperiment_sampled_since_last_improvement self
      | _ \<Rightarrow> Inl AttributeError)"

text \<open>The first statement of \<^verbatim>\<open>_stop_experiment\<close>: start or extend the list of
  cumulative counts.\<close>

definition update_n_sampled :: "experiment_obj \<Rightarrow> int \<Rightarrow> error + int list" where
  "update_n_sampled self n =
     (case n_sampled self of
        NoneValue \<Rightarrow> Inr [n]
      | Count c \<Rightarrow> Inl AttributeError
      | CountList ns \<Rightarrow> if ns = [] then Inl IndexError else Inr (ns @ [last ns + n]))"

definition OptimisationExperiment_stop_experiment ::
  "experiment_obj \<Rightarrow> real list list \<Rightarrow> real list list \<Rightarrow> (error + bool) \<times> experiment_obj" where
  "OptimisationExperiment_stop_experiment self x y =
     (case update_n_sampled self (len x) of
        Inl e \<Rightarrow> (Inl e, self)
      | Inr ns \<Rightarrow>
          let self1 = self\<lparr>n_sampled := CountList ns\<rparr> in
          (case finish_line self1 of
             None \<Rightarrow> (Inl TypeError, self1)
           | Some cap \<Rightarrow>
               if cap < last ns then (Inr True, self1)
               else
                 (case np_min y of
                    Inl e \<Rightarrow> (Inl e, self1)
                  | Inr m \<Rightarrow>
                      let self2 = self1\<lparr>optimals := optimals self1 @ [m]\<rparr> in
                      (case sampled_since_last_improvement self2 of
                         Inl e \<Rightarrow> (Inl e, self2)
                       | Inr since \<Rightarrow> (Inr (patience self2 < since), self2)))))"

subsection \<open>The posterior sampling stopping criterion\<close>

text \<open>\<^verbatim>\<open>self.n_sampled += len(x)\<close> raises \<^verbatim>\<open>TypeError\<close> on \<^verbatim>\<open>None\<close> and on a list;
  \<^verbatim>\<open>self.n_sampled >= self.finish_line\<close> raises it when \<^verbatim>\<open>finish_line\<close> is
  \<^verbatim>\<open>None\<close>.\<close>

definition PosteriorSamplingExperiment_stop_experiment ::
  "experiment_obj \<Rightarrow> real list list \<Rightarrow> real list list \<Rightarrow> (error + bool) \<times> experiment_obj" where
  "PosteriorSamplingExperiment_stop_experiment self x y =
     (case n_sampled self of
        NoneValue \<Rightarrow> (Inl TypeError, self)
      | CountList ns \<Rightarrow> (Inl TypeError, self)
      | Count c \<Rightarrow>
          let self1 = self\<lparr>n_sampled := Count (c + len x)\<rparr> in
          (case finish_line self1 of
             None \<Rightarrow> (Inl TypeError, self1)
           | Some cap \<Rightarrow> (Inr (cap \<le> c + len x), self1)))"

text \<open>\<^verbatim>\<open>self._stop_experiment(x, y)\<close>. The abstract method of \<^verbatim>\<open>Experiment\<close> has the body
  \<^verbatim>\<open>pass\<close> and returns \<^verbatim>\<open>None\<close>, which the loop reads as false.\<close>

definition stop_experiment ::
  "experiment_obj \<Rightarrow> real list list \<Rightarrow> real list list \<Rightarrow> (error + bool) \<times> experiment_obj" where
  "stop_experiment self x y =
     (case resolve (cls self) M_stop_experiment of
        Some OptimisationExperiment \<Rightarrow> OptimisationExperiment_stop_experiment self x y
      | Some PosteriorSamplingExperiment \<Rightarrow> PosteriorSamplingExperiment_stop_experiment self x y
      | Some Experiment \<Rightarrow> (Inr False, self)
      | _ \<Rightarrow> (Inl AttributeError, self))"

subsection \<open>Formatting\<close>

text \<open>\<^verbatim>\<open>str\<close> of an integer and of a boolean, and \<^verbatim>\<open>','.join\<close>. How Python and numpy
  print a float is not part of this module: \<open>str_float\<close> and \<open>astype_str\<close> are
  parameters.\<close>

fun str_nat :: "nat \<Rightarrow> string" where
  "str_nat n =
     (if n < 10 then [''0123456789'' ! n]
      else str_nat (n div 10) @ [''0123456789'' ! (n mod 10)])"

declare str_nat.simps [simp del]

definition str_int :: "int \<Rightarrow> string" where
  "str_int i = (if i < 0 then CHR ''-'' # str_nat (nat (- i)) else str_nat (nat i))"

definition str_bool :: "bool \<Rightarrow> string" where
  "str_bool b = (if b then ''True'' else ''False'')"

fun join :: "string \<Rightarrow> string list \<Rightarrow> string" where
  "join sep [] = []"
| "join sep [a] = a"
| "join sep (a # b # rest) = a @ sep @ join sep (b # rest)"

record formats =
  str_float :: "real \<Rightarrow> string"
  astype_str :: "real \<Rightarrow> string"

definition os_sep :: string where
  "os_sep = ''/''"

subsection \<open>The Logger\<close>

text \<open>Writing to a closed file raises \<^verbatim>\<open>ValueError\<close>. Failures of the operating
  system (a full disk, a missing directory) are not modelled.\<close>

definition handle_write :: "handle \<Rightarrow> string \<Rightarrow> error + handle" where
  "handle_write h s = (if closed h then Inl ValueError else Inr (h\<lparr>written := written h @ [s]\<rparr>))"

definition handle_flush :: "handle \<Rightarrow> error + handle" where
  "handle_flush h = (if closed h then Inl ValueError else Inr h)"

definition handle_close :: "handle \<Rightarrow> handle" where
  "handle_close h = h\<lparr>closed := True\<rparr>"

definition open_w :: handle where
  "open_w = \<lparr>closed = False, written = []\<rparr>"

text \<open>\<^verbatim>\<open>Logger.__init__\<close>, given the folder that \<^verbatim>\<open>create_unique_folder\<close> returned,
  with \<^verbatim>\<open>_create_handles\<close> inlined. Every Logger that exists has its three handles, so
  the \<^verbatim>\<open>hasattr\<close> tests of \<^verbatim>\<open>__del__\<close> succeed.\<close>

definition Logger_init :: "string \<Rightarrow> string \<Rightarrow> logger" where
  "Logger_init base folder =
     \<lparr>basepath = base, path = folder, method_calls = 0, create_samples_header = True,
      handle_samples = open_w,
      handle_functioncalls =
        open_w\<lparr>written := [''method_call_id,n_queried,dt,asked_for_derivative\<newline>'']\<rparr>,
      handle_methodcalls =
        open_w\<lparr>written := [''method_call_id,dt,total_dataset_size,new_data_generated\<newline>'']\<rparr>\<rparr>"

definition Logger_del :: "logger \<Rightarrow> logger" where
  "Logger_del lg =
     lg\<lparr>handle_samples := handle_close (handle_samples lg),
        handle_functioncalls := handle_close (handle_functioncalls lg),
        handle_methodcalls := handle_close (handle_methodcalls lg)\<rparr>"

text \<open>The header of the samples stream, from the first point of each array.\<close>

definition samples_header :: "real list \<Rightarrow> real list \<Rightarrow> string" where
  "samples_header x0 y0 =
     join '','' ([''method_call_id'']
       @ map (\<lambda>i. ''x'' @ str_int (int i)) [0..<length x0]
       @ map (\<lambda>i. ''y'' @ str_int (int i)) [0..<length y0]) @ ''\<newline>''"

text \<open>The loop \<^verbatim>\<open>for i in range(n_datapoints)\<close> of \<^verbatim>\<open>log_samples\<close>: \<^verbatim>\<open>points[i]\<close>
  exists for every \<open>i\<close>, \<^verbatim>\<open>labels[i]\<close> raises \<^verbatim>\<open>IndexError\<close> when \<open>y\<close> is shorter than
  \<open>x\<close>.\<close>

fun write_rows ::
  "string \<Rightarrow> string list list \<Rightarrow> string list list \<Rightarrow> handle \<Rightarrow> (error + unit) \<times> handle" where
  "write_rows mc [] labels h = (Inr (), h)"
| "write_rows mc (p # points) [] h = (Inl IndexError, h)"
| "write_rows mc (p # points) (l # labels) h =
     (case handle_write h (join '','' ([mc] @ p @ l) @ ''\<newline>'') of
        Inl e \<Rightarrow> (Inl e, h)
      | Inr h' \<Rightarrow> write_rows mc points labels h')"

definition create_header ::
  "logger \<Rightarrow> real list list \<Rightarrow> real list list \<Rightarrow> (error + unit) \<times> logger" where
  "create_header lg x y =
     (if create_samples_header lg then
        (case x of
           [] \<Rightarrow> (Inl IndexError, lg)
         | x0 # _ \<Rightarrow>
             (case y of
                [] \<Rightarrow> (Inl IndexError, lg)
              | y0 # _ \<Rightarrow>
                  (case handle_write (handle_samples lg) (samples_header x0 y0) of
                     Inl e \<Rightarrow> (Inl e, lg)
                   | Inr h \<Rightarrow>
                       (Inr (), lg\<lparr>handle_samples := h, create_samples_header := False\<rparr>))))
      else (Inr (), lg))"

definition log_samples ::
  "formats \<Rightarrow> real list list \<Rightarrow> real list list \<Rightarrow> logger \<Rightarrow> (error + unit) \<times> logger" where
  "log_samples fmt x y lg =
     (case create_header lg x y of
        (Inl e, lg1) \<Rightarrow> (Inl e, lg1)
      | (Inr u, lg1) \<Rightarrow>
          (case write_rows (str_int (method_calls lg1))
                  (map (map (astype_str fmt)) x) (map (map (astype_str fmt)) y)
                  (handle_samples lg1) of
             (Inl e, h) \<Rightarrow> (Inl e, lg1\<lparr>handle_samples := h\<rparr>)
           | (Inr u, h) \<Rightarrow>
               (case handle_flush h of
                  Inl e \<Rightarrow> (Inl e, lg1\<lparr>handle_samples := h\<rparr>)
                | Inr h' \<Rightarrow> (Inr (), lg1\<lparr>handle_samples := h'\<rparr>))))"

definition log_method_calls ::
  "formats \<Rightarrow> real \<Rightarrow> int \<Rightarrow> int \<Rightarrow> logger \<Rightarrow> (error + unit) \<times> logger" where
  "log_method_calls fmt dt size_total size_generated lg =
     (case handle_write (handle_methodcalls lg)
             (join '','' [str_int (method_calls lg), str_float fmt dt,
                          str_int size_total, str_int size_generated] @ ''\<newline>'') of
        Inl e \<Rightarrow> (Inl e, lg)
      | Inr h \<Rightarrow> (Inr (), lg\<lparr>handle_methodcalls := h\<rparr>))"

text \<open>One row per entry \<^verbatim>\<open>(n_queried, dt, asked_for_derivative)\<close> of the function's
  counter.\<close>

fun log_function_calls ::
  "formats \<Rightarrow> (int \<times> real \<times> bool) list \<Rightarrow> logger \<Rightarrow> (error + unit) \<times> logger" where
  "log_function_calls fmt [] lg = (Inr (), lg)"
| "log_function_calls fmt ((n, dt, d) # entries) lg =
     (case handle_write (handle_functioncalls lg)
             (join '','' [str_int (method_calls lg), str_int n, str_float fmt dt, str_bool d]
                @ ''\<newline>'') of
        Inl e \<Rightarrow> (Inl e, lg)
      | Inr h \<Rightarrow> log_function_calls fmt entries (lg\<lparr>handle_functioncalls := h\<rparr>))"

text \<open>\<^verbatim>\<open>log_benchmarks\<close> on the files of the disk, a map from paths to contents.
  \<open>dump\<close> is the text \<^verbatim>\<open>yaml.dump\<close> writes for the measurements this call would take;
  the benchmark routines are in another module.\<close>

definition benchmarks_file :: "string \<Rightarrow> string" where
  "benchmarks_file base = base @ os_sep @ ''benchmarks.yaml''"

definition log_benchmarks :: "string \<Rightarrow> logger \<Rightarrow> (string \<rightharpoonup> string) \<Rightarrow> (string \<rightharpoonup> string)" where
  "log_benchmarks dump lg fs =
     (if fs (benchmarks_file (basepath lg)) \<noteq> None then fs
      else fs(benchmarks_file (basepath lg) \<mapsto> dump))"

text \<open>\<^verbatim>\<open>log_experiment\<close> writes the metadata snapshot into the run's folder; \<open>dump\<close> is
  the text \<^verbatim>\<open>yaml.dump\<close> writes for it, or the error that collecting the metadata
  raises, which leaves the file opened and empty.\<close>

definition log_experiment ::
  "error + string \<Rightarrow> logger \<Rightarrow> (string \<rightharpoonup> string) \<Rightarrow> (error + unit) \<times> (string \<rightharpoonup> string)" where
  "log_experiment dump lg fs =
     (case dump of
        Inl e \<Rightarrow> (Inl e, fs(path lg @ os_sep @ ''experiment.yaml'' \<mapsto> []))
      | Inr d \<Rightarrow> (Inr (), fs(path lg @ os_sep @ ''experiment.yaml'' \<mapsto> d)))"

subsection \<open>The collaborators of a run\<close>

text \<open>
  The method under test, the test function, the clock and the helpers of the \<^verbatim>\<open>utils\<close>
  module are not part of this module. Their state is an abstract world \<open>'w\<close>, and what
  they do is a parameter of the run:
  \<^item> \<open>is_TestFunction\<close>: \<^verbatim>\<open>isinstance(function, TestFunction)\<close>;
  \<^item> \<open>function_name_lower\<close>: \<^verbatim>\<open>(type(function).__name__).lower()\<close>;
  \<^item> \<open>create_unique_folder\<close>: the helper of that name, given base path and subfolder;
  \<^item> \<open>experiment_yaml\<close>, \<open>benchmarks_yaml\<close>: the text of the two snapshots;
  \<^item> \<open>get_time\<close>: the clock;
  \<^item> \<open>method_call\<close>: \<^verbatim>\<open>self.method(self.function)\<close>, returning \<open>(x, y)\<close>;
  \<^item> \<open>method_is_finished\<close>: \<^verbatim>\<open>self.method.is_finished()\<close>;
  \<^item> \<open>function_counter\<close>, \<open>function_reset\<close>: \<^verbatim>\<open>function.counter\<close> and
    \<^verbatim>\<open>function.reset()\<close>.
\<close>

record 'w env =
  is_TestFunction :: "'w \<Rightarrow> bool"
  function_name_lower :: "'w \<Rightarrow> string"
  create_unique_folder :: "string \<Rightarrow> string \<Rightarrow> 'w \<Rightarrow> (error + string) \<times> 'w"
  experiment_yaml :: "'w \<Rightarrow> error + string"
  benchmarks_yaml :: "'w \<Rightarrow> string"
  get_time :: "'w \<Rightarrow> real \<times> 'w"
  method_call :: "'w \<Rightarrow> (error + real list list \<times> real list list) \<times> 'w"
  method_is_finished :: "'w \<Rightarrow> (error + bool) \<times> 'w"
  function_counter :: "'w \<Rightarrow> (int \<times> real \<times> bool) list"
  function_reset :: "'w \<Rightarrow> (error + unit) \<times> 'w"
  formatting :: formats

text \<open>
  The state a run works on: the world, the snapshot files on disk, the experiment
  instance, and the Loggers that have been finalised. CPython counts references, and a
  Logger is referenced by the attribute \<^verbatim>\<open>logger\<close> of its experiment alone: \<^verbatim>\<open>__del__\<close>
  runs at the moment that attribute is deleted or rebound. \<open>finalized\<close> keeps each such
  Logger as \<^verbatim>\<open>__del__\<close> left it, so that its streams stay observable.
\<close>

record 'w run_state =
  world :: 'w
  files :: "string \<rightharpoonup> string"
  obj :: experiment_obj
  finalized :: "logger list"

subsection \<open>Sequencing of statements that may raise\<close>

definition andthen ::
  "('s \<Rightarrow> (error + 'a) \<times> 's) \<Rightarrow> ('a \<Rightarrow> 's \<Rightarrow> (error + 'b) \<times> 's) \<Rightarrow> 's \<Rightarrow> (error + 'b) \<times> 's" where
  "andthen m f s = (case m s of (Inl e, s') \<Rightarrow> (Inl e, s') | (Inr v, s') \<Rightarrow> f v s')"

definition return :: "'a \<Rightarrow> 's \<Rightarrow> (error + 'a) \<times> 's" where
  "return v s = (Inr v, s)"

definition in_world ::
  "('w \<Rightarrow> (error + 'a) \<times> 'w) \<Rightarrow> 'w run_state \<Rightarrow> (error + 'a) \<times> 'w run_state" where
  "in_world f s = (case f (world s) of (r, w) \<Rightarrow> (r, s\<lparr>world := w\<rparr>))"

text \<open>A call \<^verbatim>\<open>self.logger.m(...)\<close>: \<^verbatim>\<open>AttributeError\<close> when the attribute is \<^verbatim>\<open>None\<close> or
  has been deleted.\<close>

definition in_logger ::
  "(logger \<Rightarrow> (error + 'a) \<times> logger) \<Rightarrow> 'w run_state \<Rightarrow> (error + 'a) \<times> 'w run_state" where
  "in_logger f s =
     (case logger (obj s) of
        Bound lg \<Rightarrow> (case f lg of (r, lg') \<Rightarrow> (r, s\<lparr>obj := (obj s)\<lparr>logger := Bound lg'\<rparr>\<rparr>))
      | _ \<Rightarrow> (Inl AttributeError, s))"

definition in_experiment ::
  "(experiment_obj \<Rightarrow> (error + 'a) \<times> experiment_obj) \<Rightarrow> 'w run_state
     \<Rightarrow> (error + 'a) \<times> 'w run_state" where
  "in_experiment f s = (case f (obj s) of (r, self) \<Rightarrow> (r, s\<lparr>obj := self\<rparr>))"

definition read_time :: "'w env \<Rightarrow> 'w run_state \<Rightarrow> (error + real) \<times> 'w run_state" where
  "read_time env = in_world (\<lambda>w. case get_time env w of (t, w') \<Rightarrow> (Inr t, w'))"

subsection \<open>The control loop\<close>

text \<open>\<^verbatim>\<open>self.method.is_finished() or self._stop_experiment(x, y)\<close>: the right operand is
  evaluated only when the left one is false.\<close>

definition check_finished ::
  "'w env \<Rightarrow> real list list \<Rightarrow> real list list \<Rightarrow> 'w run_state \<Rightarrow> (error + bool) \<times> 'w run_state" where
  "check_finished env x y =
     andthen (in_world (method_is_finished env))
       (\<lambda>finished. if finished then return True
                    else in_experiment (\<lambda>self. stop_experiment self x y))"

text \<open>The body of the \<^verbatim>\<open>while\<close> loop. It returns the new value of \<^verbatim>\<open>is_finished\<close> and
  of the local counter \<^verbatim>\<open>n_sampled\<close>.\<close>

definition iteration ::
  "'w env \<Rightarrow> bool \<Rightarrow> int \<Rightarrow> 'w run_state \<Rightarrow> (error + bool \<times> int) \<times> 'w run_state" where
  "iteration env log_data n_total =
     andthen (in_logger (\<lambda>lg. (Inr (), lg\<lparr>method_calls := method_calls lg + 1\<rparr>))) (\<lambda>u.
     andthen (read_time env) (\<lambda>t_start.
     andthen (in_world (method_call env)) (\<lambda>xy.
     andthen (read_time env) (\<lambda>t_end.
     andthen (in_logger (log_method_calls (formatting env) (t_end - t_start)
                (n_total + len (fst xy)) (len (fst xy)))) (\<lambda>u.
     andthen (if log_data then in_logger (log_samples (formatting env) (fst xy) (snd xy))
              else return ()) (\<lambda>u.
     andthen (\<lambda>s. in_logger (log_function_calls (formatting env) (function_counter env (world s))) s) (\<lambda>u.
     andthen (in_world (function_reset env)) (\<lambda>u.
     andthen (check_finished env (fst xy) (snd xy)) (\<lambda>fin.
     return (fin, n_total + len (fst xy)))))))))))"

text \<open>\<^verbatim>\<open>while not is_finished\<close>. The loop ends only when an iteration says so or raises;
  \<open>fuel\<close> bounds the number of iterations and \<open>None\<close> means that it ran out.\<close>

fun while_loop ::
  "'w env \<Rightarrow> bool \<Rightarrow> nat \<Rightarrow> int \<Rightarrow> 'w run_state \<Rightarrow> ((error + unit) \<times> 'w run_state) option" where
  "while_loop env log_data 0 n_total s = None"
| "while_loop env log_data (Suc fuel) n_total s =
     (case iteration env log_data n_total s of
        (Inl e, s') \<Rightarrow> Some (Inl e, s')
      | (Inr (fin, n_total'), s') \<Rightarrow>
          if fin then Some (Inr (), s') else while_loop env log_data fuel n_total' s')"

text \<open>\<^verbatim>\<open>self.logger = lg\<close>: a Logger still bound to the attribute loses its last reference.\<close>

definition bind_logger :: "logger \<Rightarrow> 'w run_state \<Rightarrow> 'w run_state" where
  "bind_logger lg s =
     s\<lparr>obj := (obj s)\<lparr>logger := Bound lg\<rparr>,
       finalized := (case logger (obj s) of
                       Bound old \<Rightarrow> finalized s @ [Logger_del old]
                     | _ \<Rightarrow> finalized s)\<rparr>"

text \<open>\<^verbatim>\<open>del (self.logger)\<close>.\<close>

definition del_logger :: "'w run_state \<Rightarrow> (error + unit) \<times> 'w run_state" where
  "del_logger s =
     (case logger (obj s) of
        Bound lg \<Rightarrow>
          (Inr (), s\<lparr>obj := (obj s)\<lparr>logger := Deleted\<rparr>, finalized := finalized s @ [Logger_del lg]\<rparr>)
      | _ \<Rightarrow> (Inl AttributeError, s))"

text \<open>\<^verbatim>\<open>Experiment._perform_experiment\<close>. The \<^verbatim>\<open>print\<close> at its start and the two
  assignments of \<^verbatim>\<open>function\<close> are not modelled: the function lives in the world.\<close>

definition Experiment_perform_experiment ::
  "'w env \<Rightarrow> bool \<Rightarrow> nat \<Rightarrow> 'w run_state \<Rightarrow> ((error + unit) \<times> 'w run_state) option" where
  "Experiment_perform_experiment env log_data fuel s =
     (if \<not> is_TestFunction env (world s) then Some (Inl Exception, s)
      else
        (case in_world (create_unique_folder env (experiment_path (obj s))
                          (function_name_lower env (world s))) s of
           (Inl e, s1) \<Rightarrow> Some (Inl e, s1)
         | (Inr folder, s1) \<Rightarrow>
             let lg = Logger_init (experiment_path (obj s1)) folder;
                 s2 = bind_logger lg s1
             in (case log_experiment (experiment_yaml env (world s2)) lg (files s2) of
                   (Inl e, fs) \<Rightarrow> Some (Inl e, s2\<lparr>files := fs\<rparr>)
                 | (Inr u, fs) \<Rightarrow>
                     let s3 = s2\<lparr>files := log_benchmarks (benchmarks_yaml env (world s2)) lg fs\<rparr>
                     in (case while_loop env log_data fuel 0 s3 of
                           None \<Rightarrow> None
                         | Some (Inl e, s4) \<Rightarrow> Some (Inl e, s4)
                         | Some (Inr u, s4) \<Rightarrow> Some (del_logger s4)))))"

text \<open>\<^verbatim>\<open>self._perform_experiment(function, log_data)\<close>.\<close>

definition perform_experiment ::
  "'w env \<Rightarrow> bool \<Rightarrow> nat \<Rightarrow> 'w run_state \<Rightarrow> ((error + unit) \<times> 'w run_state) option" where
  "perform_experiment env log_data fuel s =
     (case resolve (cls (obj s)) M_perform_experiment of
        Some Experiment \<Rightarrow> Experiment_perform_experiment env log_data fuel s
      | _ \<Rightarrow> Some (Inl AttributeError, s))"

subsection \<open>The run methods\<close>

definition OptimisationExperiment_run ::
  "'w env \<Rightarrow> nat \<Rightarrow> real \<Rightarrow> bool \<Rightarrow> int \<Rightarrow> int option \<Rightarrow> bool \<Rightarrow> 'w run_state
     \<Rightarrow> ((error + unit) \<times> 'w run_state) option" where
  "OptimisationExperiment_run env fuel eps absolute pat cap log_data s =
     perform_experiment env log_data fuel
       (s\<lparr>obj := (obj s)\<lparr>epsilon := eps, absolute_improvement := absolute, patience := pat,
                         finish_line := cap, n_sampled := NoneValue, optimals := []\<rparr>\<rparr>)"

definition PosteriorSamplingExperiment_run ::
  "'w env \<Rightarrow> nat \<Rightarrow> int option \<Rightarrow> bool \<Rightarrow> 'w run_state
     \<Rightarrow> ((error + unit) \<times> 'w run_state) option" where
  "PosteriorSamplingExperiment_run env fuel cap log_data s =
     perform_experiment env log_data fuel
       (s\<lparr>obj := (obj s)\<lparr>finish_line := cap, n_sampled := Count 0\<rparr>\<rparr>)"

text \<open>A call \<^verbatim>\<open>e.run(function, epsilon, absolute_improvement, patience, finish_line,
  log_data)\<close> on an instance \<open>e\<close>: the \<^verbatim>\<open>run\<close> of the two other classes takes fewer
  arguments and raises \<^verbatim>\<open>TypeError\<close>.\<close>

definition run ::
  "'w env \<Rightarrow> nat \<Rightarrow> real \<Rightarrow> bool \<Rightarrow> int \<Rightarrow> int option \<Rightarrow> bool \<Rightarrow> 'w run_state
     \<Rightarrow> ((error + unit) \<times> 'w run_state) option" where
  "run env fuel eps absolute pat cap log_data s =
     (case resolve (cls (obj s)) M_run of
        Some OptimisationExperiment \<Rightarrow>
          OptimisationExperiment_run env fuel eps absolute pat cap log_data s
      | Some _ \<Rightarrow> Some (Inl TypeError, s)
      | None \<Rightarrow> Some (Inl AttributeError, s))"

subsection \<open>Notions used in the statements\<close>

text \<open>The decisions of a criterion over successive batches, as the loop asks for them
  while the method never reports itself finished: the trace ends with the first
  \<^verbatim>\<open>True\<close> or the first error.\<close>

fun stop_trace ::
  "experiment_obj \<Rightarrow> (real list list \<times> real list list) list
     \<Rightarrow> (error + bool) list \<times> experiment_obj" where
  "stop_trace self [] = ([], self)"
| "stop_trace self ((x, y) # batches) =
     (case stop_experiment self x y of
        (Inl e, self') \<Rightarrow> ([Inl e], self')
      | (Inr True, self') \<Rightarrow> ([Inr True], self')
      | (Inr False, self') \<Rightarrow>
          (case stop_trace self' batches of (rs, self'') \<Rightarrow> (Inr False # rs, self'')))"


text \<open>An optimisation experiment before its first iteration, configured with
  \<^verbatim>\<open>epsilon=0.1\<close>, \<^verbatim>\<open>absolute_improvement=True\<close>, \<^verbatim>\<open>patience=2\<close> and the given
  \<^verbatim>\<open>finish_line\<close>, and four batches of one point each with the minima 10, 9, 8.95, 8.9.\<close>

definition example_optimisation :: "int option \<Rightarrow> experiment_obj" where
  "example_optimisation cap =
     \<lparr>cls = OptimisationExperiment, experiment_path = ''logs'', logger = IsNone,
      epsilon = 0.1, absolute_improvement = True, patience = 2, finish_line = cap,
      n_sampled = NoneValue, optimals = []\<rparr>"

definition example_batches :: "(real list list \<times> real list list) list" where
  "example_batches = [([[0]], [[10]]), ([[0]], [[9]]), ([[0]], [[8.95]]), ([[0]], [[8.9]])]"

text \<open>A posterior sampling experiment before its first iteration with
  \<^verbatim>\<open>finish_line=100\<close>, and batches of 40, 40 and 30 points.\<close>

definition example_posterior :: experiment_obj where
  "example_posterior =
     \<lparr>cls = PosteriorSamplingExperiment, experiment_path = ''logs'', logger = IsNone,
      epsilon = 0, absolute_improvement = False, patience = 0, finish_line = Some 100,
      n_sampled = Count 0, optimals = []\<rparr>"

definition example_sized_batches :: "(real list list \<times> real list list) list" where
  "example_sized_batches =
     [(replicate 40 [0], replicate 40 [1]), (replicate 40 [0], replicate 40 [1]),
      (replicate 30 [0], replicate 30 [1])]"








text \<open>The calls of \<^verbatim>\<open>log_benchmarks\<close> of successive runs, each with the Logger of its run
  and the text it would write.\<close>

fun log_benchmarks_runs ::
  "(string \<times> logger) list \<Rightarrow> (string \<rightharpoonup> string) \<Rightarrow> (string \<rightharpoonup> string)" where
  "log_benchmarks_runs [] fs = fs"
| "log_benchmarks_runs ((dump, lg) # runs) fs =
     log_benchmarks_runs runs (log_benchmarks dump lg fs)"

definition example_logger :: logger where
  "example_logger = Logger_init ''logs'' ''logs/sphere''"




text \<open>The outcome of iteration number \<open>k + 1\<close> of the loop body, run after \<open>k\<close> earlier
  iterations whatever flag they returned; an error of an earlier iteration is the
  outcome.\<close>

fun iterate ::
  "'w env \<Rightarrow> bool \<Rightarrow> nat \<Rightarrow> int \<Rightarrow> 'w run_state \<Rightarrow> (error + bool \<times> int) \<times> 'w run_state" where
  "iterate env log_data 0 n_total s = iteration env log_data n_total s"
| "iterate env log_data (Suc k) n_total s =
     (case iteration env log_data n_total s of
        (Inl e, s') \<Rightarrow> (Inl e, s')
      | (Inr (fin, n_total'), s') \<Rightarrow> iterate env log_data k n_total' s')"

text \<open>The same state with the experiment being an instance of class \<open>c\<close>.\<close>

definition as_class :: "class_name \<Rightarrow> 'w run_state \<Rightarrow> 'w run_state" where
  "as_class c s = s\<lparr>obj := (obj s)\<lparr>cls := c\<rparr>\<rparr>"

text \<open>A statement \<open>m\<close> does to an \<^verbatim>\<open>OptimizationExperiment\<close> what it does to an
  \<^verbatim>\<open>OptimisationExperiment\<close>, and leaves the class of the instance alone.\<close>

definition alias_blind :: "('w run_state \<Rightarrow> 'r \<times> 'w run_state) \<Rightarrow> bool" where
  "alias_blind m =
     (\<forall>s. cls (obj s) = OptimisationExperiment \<longrightarrow>
        m (as_class OptimizationExperiment s)
          = (fst (m s), as_class OptimizationExperiment (snd (m s)))
        \<and> cls (obj (snd (m s))) = OptimisationExperiment)"








text \<open>The state of the optimisation criterion between two iterations of a run: no counts
  and no minima before the first one, and afterwards as many counts as minima.\<close>

definition criterion_consistent :: "experiment_obj \<Rightarrow> bool" where
  "criterion_consistent self =
     (case n_sampled self of
        NoneValue \<Rightarrow> optimals self = []
      | CountList ns \<Rightarrow> ns \<noteq> [] \<and> length ns = length (optimals self)
      | Count c \<Rightarrow> False)"

section \<open>Properties\<close>

subsection \<open>Attribute lookup\<close>

lemma resolve_stop_experiment:
  "resolve OptimisationExperiment M_stop_experiment = Some OptimisationExperiment"
  "resolve OptimizationExperiment M_stop_experiment = Some OptimisationExperiment"
  "resolve PosteriorSamplingExperiment M_stop_experiment = Some PosteriorSamplingExperiment"
  "resolve Experiment M_stop_experiment = Some Experiment"
  by (simp_all add: resolve_def)

lemma resolve_sampled_since_last_improvement:
  "resolve OptimisationExperiment M_sampled_since_last_improvement = Some OptimisationExperiment"
  "resolve OptimizationExperiment M_sampled_since_last_improvement = Some OptimisationExperiment"
  "resolve PosteriorSamplingExperiment M_sampled_since_last_improvement = None"
  "resolve Experiment M_sampled_since_last_improvement = None"
  by (simp_all add: resolve_def)

lemma resolve_perform_experiment:
  "resolve c M_perform_experiment = Some Experiment"
  by (cases c) (simp_all add: resolve_def)

lemma resolve_run:
  "resolve OptimisationExperiment M_run = Some OptimisationExperiment"
  "resolve OptimizationExperiment M_run = Some OptimisationExperiment"
  "resolve PosteriorSamplingExperiment M_run = Some PosteriorSamplingExperiment"
  "resolve Experiment M_run = Some Experiment"
  by (simp_all add: resolve_def)

lemmas criterion_defs =
  stop_experiment_def OptimisationExperiment_stop_experiment_def
  PosteriorSamplingExperiment_stop_experiment_def update_n_sampled_def len_def np_min_def
  sampled_since_last_improvement_def OptimisationExperiment_sampled_since_last_improvement_def
  n_sampled_since_def condition_def resolve_stop_experiment
  resolve_sampled_since_last_improvement

subsection \<open>The optimisation criterion\<close>

text \<open>
  C1, as the code has it. After four iterations of one point each with the minima
  10, 9, 8.95, 8.9 the counts are 1, 2, 3, 4 and the latest minimum is 8.9. The scan visits
  the entries 2 and 1 only; \<open>8.9 - 8.95\<close> and \<open>8.9 - 9\<close> are negative, so neither exceeds
  \<open>epsilon = 0.1\<close>, and the count since entry 0 is returned: \<open>4 - 1 = 3\<close>, not 2.
\<close>

theorem example_scan_counterexample:
  "OptimisationExperiment_sampled_since_last_improvement
     ((example_optimisation None)\<lparr>n_sampled := CountList [1, 2, 3, 4],
                                   optimals := [10, 9, 8.95, 8.9]\<rparr>) \<noteq> Inr 2
   \<and> OptimisationExperiment_sampled_since_last_improvement
       ((example_optimisation None)\<lparr>n_sampled := CountList [1, 2, 3, 4],
                                     optimals := [10, 9, 8.95, 8.9]\<rparr>) = Inr 3"
  by (simp add: example_optimisation_def criterion_defs numeral_2_eq_2)

text \<open>
  C1, amended: with a numeric \<^verbatim>\<open>finish_line\<close> of at least 4, the criterion answers
  \<^verbatim>\<open>False\<close> in the first three iterations of the scenario and \<^verbatim>\<open>True\<close> in the fourth,
  where the scan returns \<open>n_sampled[3] - n_sampled[0] = 3\<close>, which is greater than the
  patience of 2: the run stops.
\<close>

theorem example_scan_stops:
  assumes "4 \<le> cap"
  shows "stop_trace (example_optimisation (Some cap)) example_batches =
           ([Inr False, Inr False, Inr False, Inr True],
            (example_optimisation (Some cap))\<lparr>n_sampled := CountList [1, 2, 3, 4],
                                               optimals := [10, 9, 8.95, 8.9]\<rparr>)
         \<and> sampled_since_last_improvement
             ((example_optimisation (Some cap))\<lparr>n_sampled := CountList [1, 2, 3, 4],
                                                optimals := [10, 9, 8.95, 8.9]\<rparr>) = Inr 3"
  using assms
  by (simp add: example_optimisation_def example_batches_def criterion_defs
      numeral_2_eq_2 numeral_3_eq_3)

theorem example_scan_stops_witness:
  "(4::int) \<le> 1000
   \<and> stop_trace (example_optimisation (Some 1000)) example_batches =
       ([Inr False, Inr False, Inr False, Inr True],
        (example_optimisation (Some 1000))\<lparr>n_sampled := CountList [1, 2, 3, 4],
                                            optimals := [10, 9, 8.95, 8.9]\<rparr>)
   \<and> sampled_since_last_improvement
       ((example_optimisation (Some 1000))\<lparr>n_sampled := CountList [1, 2, 3, 4],
                                           optimals := [10, 9, 8.95, 8.9]\<rparr>) = Inr 3"
proof -
  have h: "(4::int) \<le> 1000" by simp
  from example_scan_stops [OF h] h show ?thesis by blast
qed


text \<open>The states in which \<^verbatim>\<open>_stop_experiment\<close> calls the scan during a run meet the
  hypotheses of the theorem that follows them: \<^verbatim>\<open>run\<close> starts consistent, an iteration that lets the
  loop go on keeps the state consistent, and the scan is called with one more count and
  one more minimum.\<close>

lemma run_starts_consistent:
  "criterion_consistent (self\<lparr>n_sampled := NoneValue, optimals := []\<rparr>)"
  by (simp add: criterion_consistent_def)

lemma scan_called_consistent:
  assumes "criterion_consistent self" and "update_n_sampled self n = Inr ns"
  shows "length ns = length (optimals self @ [m]) \<and> optimals self @ [m] \<noteq> []"
  using assms
  by (auto simp: criterion_consistent_def update_n_sampled_def
      split: n_sampled_value.splits if_splits)

lemma stop_experiment_keeps_consistent:
  assumes "criterion_consistent self"
    and "OptimisationExperiment_stop_experiment self x y = (Inr False, self')"
  shows "criterion_consistent self'"
  using assms
  by (auto simp: OptimisationExperiment_stop_experiment_def criterion_consistent_def
      update_n_sampled_def Let_def
      split: n_sampled_value.splits sum.splits option.splits if_splits)



text \<open>
  C2, on the code. With \<^verbatim>\<open>finish_line=None\<close> the comparison of the count with
  \<^verbatim>\<open>None\<close> raises \<^verbatim>\<open>TypeError\<close> in the first evaluation of either criterion (and in
  every later one): neither returns a decision.
\<close>

theorem finish_line_None_raises:
  "fst (OptimisationExperiment_stop_experiment
          (self\<lparr>finish_line := None, n_sampled := NoneValue\<rparr>) x y) = Inl TypeError
   \<and> fst (OptimisationExperiment_stop_experiment
          (self\<lparr>finish_line := None, n_sampled := CountList (ns @ [n])\<rparr>) x y) = Inl TypeError
   \<and> fst (PosteriorSamplingExperiment_stop_experiment
          (self\<lparr>finish_line := None, n_sampled := Count c\<rparr>) x y) = Inl TypeError
   \<and> fst (stop_trace (example_optimisation None) example_batches) = [Inl TypeError]
   \<and> fst (stop_trace (example_posterior\<lparr>finish_line := None\<rparr>) example_sized_batches)
       = [Inl TypeError]"
  by (simp add: criterion_defs example_optimisation_def example_batches_def
      example_posterior_def example_sized_batches_def)

text \<open>
  C4, as the code has it. The optimisation criterion takes \<^verbatim>\<open>np.min\<close> of the batch's
  values, which raises \<^verbatim>\<open>ValueError\<close> for an empty batch.
\<close>

theorem empty_batch_counterexample:
  "fst (OptimisationExperiment_stop_experiment (example_optimisation (Some 1000)) [] [])
     = Inl ValueError"
  by (simp add: criterion_defs example_optimisation_def)

text \<open>
  C4, amended. With a numeric \<^verbatim>\<open>finish_line\<close>, the posterior sampling criterion accepts
  an empty batch: it leaves the running total as it is and compares it with
  \<^verbatim>\<open>finish_line\<close>. The optimisation criterion returns \<^verbatim>\<open>True\<close> for an empty batch when
  the cumulative count already exceeds \<^verbatim>\<open>finish_line\<close>, and raises \<^verbatim>\<open>ValueError\<close>
  otherwise.
\<close>

theorem empty_batch:
  "PosteriorSamplingExperiment_stop_experiment
      (self\<lparr>finish_line := Some cap, n_sampled := Count c\<rparr>) [] []
     = (Inr (cap \<le> c), self\<lparr>finish_line := Some cap, n_sampled := Count c\<rparr>)
   \<and> fst (OptimisationExperiment_stop_experiment
            (self\<lparr>finish_line := Some cap, n_sampled := NoneValue\<rparr>) [] [])
     = (if cap < 0 then Inr True else Inl ValueError)
   \<and> fst (OptimisationExperiment_stop_experiment
            (self\<lparr>finish_line := Some cap, n_sampled := CountList (ns @ [n])\<rparr>) [] [])
     = (if cap < n then Inr True else Inl ValueError)"
  by (simp add: criterion_defs)

subsection \<open>The posterior sampling criterion\<close>

text \<open>
  C7. With a numeric \<^verbatim>\<open>finish_line\<close> the criterion adds \<open>len(x)\<close> to the running total
  and answers whether the new total has reached \<^verbatim>\<open>finish_line\<close>. With
  \<^verbatim>\<open>finish_line=100\<close> and batches of 40, 40 and 30 points it answers \<^verbatim>\<open>False\<close>,
  \<^verbatim>\<open>False\<close>, \<^verbatim>\<open>True\<close>, the total being 110 at the end.
\<close>

theorem posterior_stop_experiment:
  "PosteriorSamplingExperiment_stop_experiment
      (self\<lparr>finish_line := Some cap, n_sampled := Count c\<rparr>) x y
     = (Inr (cap \<le> c + len x), self\<lparr>finish_line := Some cap, n_sampled := Count (c + len x)\<rparr>)
   \<and> stop_trace example_posterior example_sized_batches
     = ([Inr False, Inr False, Inr True], example_posterior\<lparr>n_sampled := Count 110\<rparr>)"
  by (simp add: criterion_defs example_posterior_def example_sized_batches_def)

subsection \<open>The samples stream\<close>



















subsection \<open>The benchmark snapshot\<close>

lemma log_benchmarks_runs_present:
  assumes "\<forall>(dump, lg) \<in> set runs. basepath lg = base"
    and "fs (benchmarks_file base) = Some c"
  shows "log_benchmarks_runs runs fs = fs"
  using assms
  by (induction runs arbitrary: fs) (auto simp: log_benchmarks_def)

text \<open>
  C9. When the benchmarks file of the base path exists, \<^verbatim>\<open>log_benchmarks\<close> leaves the
  disk as it is. Over the runs that log into one base path, the file is written by the
  first run only, and only when it was absent before; no other file changes.
\<close>

theorem log_benchmarks_once:
  assumes "\<forall>(dump, lg) \<in> set runs. basepath lg = base"
  shows "log_benchmarks_runs runs fs =
           (case fs (benchmarks_file base) of
              Some c \<Rightarrow> fs
            | None \<Rightarrow> (case runs of
                         [] \<Rightarrow> fs
                       | (dump, lg) # later \<Rightarrow> fs(benchmarks_file base \<mapsto> dump)))"
proof (cases "fs (benchmarks_file base)")
  case (Some c)
  with log_benchmarks_runs_present[of runs base fs c] assms show ?thesis by simp
next
  case None
  show ?thesis
  proof (cases runs)
    case Nil
    with None show ?thesis by simp
  next
    case (Cons r later)
    obtain dump lg where r: "r = (dump, lg)" by (cases r) auto
    with assms Cons have b: "basepath lg = base" and l: "\<forall>(dump, lg) \<in> set later. basepath lg = base"
      by auto
    have "(fs(benchmarks_file base \<mapsto> dump)) (benchmarks_file base) = Some dump" by simp
    with log_benchmarks_runs_present[of later base "fs(benchmarks_file base \<mapsto> dump)" dump] l
    have "log_benchmarks_runs later (fs(benchmarks_file base \<mapsto> dump))
            = fs(benchmarks_file base \<mapsto> dump)" by blast
    with None Cons r b show ?thesis by (simp add: log_benchmarks_def)
  qed
qed

theorem log_benchmarks_once_witness:
  "list_all (\<lambda>(dump, lg). basepath lg = ''logs'')
      [(''first'', example_logger), (''second'', example_logger)]
   \<and> log_benchmarks_runs [(''first'', example_logger), (''second'', example_logger)] Map.empty
       = [benchmarks_file ''logs'' \<mapsto> ''first'']
   \<and> log_benchmarks_runs [(''second'', example_logger)] [benchmarks_file ''logs'' \<mapsto> ''first'']
       = [benchmarks_file ''logs'' \<mapsto> ''first'']"
proof -
  have h: "\<forall>(dump, lg) \<in> set [(''first'', example_logger), (''second'', example_logger)].
             basepath lg = ''logs''"
    by (simp add: example_logger_def Logger_init_def)
  then have h': "\<forall>(dump, lg) \<in> set [(''second'', example_logger)]. basepath lg = ''logs''"
    by simp
  from log_benchmarks_once
         [of "[(''first'', example_logger), (''second'', example_logger)]" "''logs''" Map.empty]
       log_benchmarks_once
         [of "[(''second'', example_logger)]" "''logs''" "[benchmarks_file ''logs'' \<mapsto> ''first'']"]
       h h'
  show ?thesis by simp
qed

subsection \<open>The control loop: what happens to the Logger\<close>

lemma andthen_cases:
  assumes "andthen m f s = (r, s')"
  obtains (raised) e where "m s = (Inl e, s')" and "r = Inl e"
        | (continued) v t where "m s = (Inr v, t)" and "f v t = (r, s')"
  using assms by (auto simp: andthen_def split: prod.splits sum.splits)




























subsection \<open>The control loop: when it halts\<close>




lemma iterate_Suc_continue:
  "iteration env log_data n s = (Inr (fin, n1), s1) \<Longrightarrow>
   iterate env log_data (Suc k) n s = iterate env log_data k n1 s1"
  by simp





subsection \<open>The alias class\<close>

lemma resolve_alias: "resolve OptimizationExperiment m = resolve OptimisationExperiment m"
  by (cases m) (simp_all add: resolve_def)

lemma alias_blindD:
  assumes "alias_blind m" and "cls (obj s) = OptimisationExperiment" and "m s = (r, t)"
  shows "m (as_class OptimizationExperiment s) = (r, as_class OptimizationExperiment t)"
    and "cls (obj t) = OptimisationExperiment"
  using assms unfolding alias_blind_def by (metis fst_conv snd_conv)+

lemma alias_blindI:
  assumes "\<And>s r t. cls (obj s) = OptimisationExperiment \<Longrightarrow> m s = (r, t) \<Longrightarrow>
             m (as_class OptimizationExperiment s) = (r, as_class OptimizationExperiment t)
             \<and> cls (obj t) = OptimisationExperiment"
  shows "alias_blind m"
  unfolding alias_blind_def
proof (intro allI impI)
  fix s :: "'a run_state"
  assume c: "cls (obj s) = OptimisationExperiment"
  obtain r t where "m s = (r, t)" by (cases "m s")
  with assms[OF c this]
  show "m (as_class OptimizationExperiment s)
          = (fst (m s), as_class OptimizationExperiment (snd (m s)))
        \<and> cls (obj (snd (m s))) = OptimisationExperiment" by simp
qed

lemma alias_blind_andthen:
  assumes m: "alias_blind m" and f: "\<And>v. alias_blind (f v)"
  shows "alias_blind (andthen m f)"
proof (rule alias_blindI)
  fix s :: "'a run_state" and r t
  assume c: "cls (obj s) = OptimisationExperiment" and run: "andthen m f s = (r, t)"
  from run show "andthen m f (as_class OptimizationExperiment s)
                   = (r, as_class OptimizationExperiment t)
                 \<and> cls (obj t) = OptimisationExperiment"
  proof (cases rule: andthen_cases)
    case (raised e)
    with alias_blindD[OF m c raised(1)] show ?thesis by (simp add: andthen_def)
  next
    case (continued v u)
    note mu = alias_blindD[OF m c continued(1)]
    from alias_blindD[OF f mu(2) continued(2)] mu(1) show ?thesis by (simp add: andthen_def)
  qed
qed

lemma alias_blind_in_world: "alias_blind (in_world f)"
  by (rule alias_blindI) (auto simp: in_world_def as_class_def split: prod.splits)

lemma alias_blind_read_time: "alias_blind (read_time env)"
  unfolding read_time_def by (rule alias_blind_in_world)

lemma alias_blind_return: "alias_blind (return v)"
  by (rule alias_blindI) (simp add: return_def)

lemma alias_blind_in_logger: "alias_blind (in_logger f)"
  by (rule alias_blindI)
     (auto simp: in_logger_def as_class_def split: prod.splits logger_attr.splits)

lemma alias_blind_log_function_calls:
  "alias_blind (\<lambda>s. in_logger (f (world s)) s)"
  by (rule alias_blindI)
     (auto simp: in_logger_def as_class_def split: prod.splits logger_attr.splits)

lemma scan_back_fields:
  assumes "n_sampled a = n_sampled b" and "optimals a = optimals b"
    and "epsilon a = epsilon b" and "absolute_improvement a = absolute_improvement b"
  shows "scan_back a cutv i = scan_back b cutv i"
  by (induction i) (simp_all add: assms n_sampled_since_def condition_def)

lemma sampled_since_fields:
  assumes "n_sampled a = n_sampled b" and "optimals a = optimals b"
    and "epsilon a = epsilon b" and "absolute_improvement a = absolute_improvement b"
  shows "OptimisationExperiment_sampled_since_last_improvement a
           = OptimisationExperiment_sampled_since_last_improvement b"
  using scan_back_fields[OF assms]
  by (simp add: OptimisationExperiment_sampled_since_last_improvement_def assms)

lemma sampled_since_cls:
  "OptimisationExperiment_sampled_since_last_improvement
      (self\<lparr>cls := c, n_sampled := ns, optimals := os\<rparr>)
     = OptimisationExperiment_sampled_since_last_improvement
         (self\<lparr>n_sampled := ns, optimals := os\<rparr>)"
  by (rule sampled_since_fields) simp_all

lemma stop_experiment_alias:
  assumes "cls self = OptimisationExperiment"
  shows "stop_experiment (self\<lparr>cls := OptimizationExperiment\<rparr>) x y
           = (fst (stop_experiment self x y),
              (snd (stop_experiment self x y))\<lparr>cls := OptimizationExperiment\<rparr>)
         \<and> cls (snd (stop_experiment self x y)) = OptimisationExperiment"
  using assms
  by (auto simp: stop_experiment_def resolve_stop_experiment
      OptimisationExperiment_stop_experiment_def update_n_sampled_def Let_def
      sampled_since_last_improvement_def resolve_sampled_since_last_improvement
      sampled_since_cls
      split: sum.splits option.splits n_sampled_value.splits)

lemma alias_blind_stop_experiment:
  "alias_blind (in_experiment (\<lambda>self. stop_experiment self x y))"
proof (rule alias_blindI)
  fix s :: "'a run_state" and r t
  assume c: "cls (obj s) = OptimisationExperiment"
    and run: "in_experiment (\<lambda>self. stop_experiment self x y) s = (r, t)"
  from stop_experiment_alias[OF c, of x y] run
  show "in_experiment (\<lambda>self. stop_experiment self x y) (as_class OptimizationExperiment s)
          = (r, as_class OptimizationExperiment t)
        \<and> cls (obj t) = OptimisationExperiment"
    by (auto simp: in_experiment_def as_class_def split: prod.splits)
qed

lemma alias_blind_check_finished: "alias_blind (check_finished env x y)"
  unfolding check_finished_def
  by (intro alias_blind_andthen alias_blind_in_world)
     (simp add: alias_blind_return alias_blind_stop_experiment)

lemma alias_blind_iteration: "alias_blind (iteration env log_data n)"
  unfolding iteration_def
  by (intro alias_blind_andthen alias_blind_read_time alias_blind_in_world
        alias_blind_return alias_blind_check_finished alias_blind_log_function_calls
        alias_blind_in_logger)
     (simp add: alias_blind_return alias_blind_in_logger)

lemma while_loop_alias:
  assumes "cls (obj s) = OptimisationExperiment"
  shows "while_loop env log_data fuel n (as_class OptimizationExperiment s)
           = map_option (map_prod id (as_class OptimizationExperiment))
               (while_loop env log_data fuel n s)
         \<and> (\<forall>r t. while_loop env log_data fuel n s = Some (r, t)
               \<longrightarrow> cls (obj t) = OptimisationExperiment)"
  using assms
proof (induction fuel arbitrary: n s)
  case 0
  show ?case by simp
next
  case (Suc fuel)
  obtain r1 s1 where it: "iteration env log_data n s = (r1, s1)"
    by (cases "iteration env log_data n s")
  note a = alias_blindD[OF alias_blind_iteration Suc.prems it]
  show ?case
  proof (cases r1)
    case (Inl e)
    with it a show ?thesis by simp
  next
    case (Inr p)
    obtain fin n1 where p: "p = (fin, n1)" by (cases p)
    show ?thesis
    proof (cases fin)
      case True
      with it a Inr p show ?thesis by simp
    next
      case False
      with it a Inr p Suc.IH[OF a(2), of n1] show ?thesis by simp
    qed
  qed
qed

lemma as_class_fields [simp]:
  "world (as_class c s) = world s"
  "files (as_class c s) = files s"
  "finalized (as_class c s) = finalized s"
  "obj (as_class c s) = (obj s)\<lparr>cls := c\<rparr>"
  by (simp_all add: as_class_def)

lemma in_world_as_class:
  "in_world f (as_class c s) = map_prod id (as_class c) (in_world f s)"
  by (simp add: in_world_def as_class_def split: prod.splits)

lemma bind_logger_as_class:
  "bind_logger lg (as_class c s) = as_class c (bind_logger lg s)"
  by (cases "logger (obj s)") (simp_all add: bind_logger_def as_class_def)

lemma del_logger_as_class:
  "del_logger (as_class c s) = map_prod id (as_class c) (del_logger s)"
  by (cases "logger (obj s)") (simp_all add: del_logger_def as_class_def)

lemma files_update_as_class:
  "(as_class c s)\<lparr>files := fs\<rparr> = as_class c (s\<lparr>files := fs\<rparr>)"
  by (simp add: as_class_def)

lemma Experiment_perform_experiment_alias:
  assumes c: "cls (obj s) = OptimisationExperiment"
  shows "Experiment_perform_experiment env log_data fuel (as_class OptimizationExperiment s)
           = map_option (map_prod id (as_class OptimizationExperiment))
               (Experiment_perform_experiment env log_data fuel s)"
proof (cases "is_TestFunction env (world s)")
  case False
  then show ?thesis by (simp add: Experiment_perform_experiment_def)
next
  case tf: True
  obtain rf s1 where cf: "in_world (create_unique_folder env (experiment_path (obj s))
      (function_name_lower env (world s))) s = (rf, s1)"
    by (cases "in_world (create_unique_folder env (experiment_path (obj s))
      (function_name_lower env (world s))) s")
  then have c1: "cls (obj s1) = OptimisationExperiment"
    using c by (auto simp: in_world_def split: prod.splits)
  show ?thesis
  proof (cases rf)
    case (Inl e)
    with tf cf show ?thesis
      by (simp add: Experiment_perform_experiment_def in_world_as_class)
  next
    case (Inr folder)
    define lg where "lg = Logger_init (experiment_path (obj s1)) folder"
    define s2 where "s2 = bind_logger lg s1"
    obtain re fs where le: "log_experiment (experiment_yaml env (world s2)) lg (files s2) = (re, fs)"
      by (cases "log_experiment (experiment_yaml env (world s2)) lg (files s2)")
    have w2: "world (bind_logger lg (as_class OptimizationExperiment s1)) = world s2"
      and f2: "files (bind_logger lg (as_class OptimizationExperiment s1)) = files s2"
      by (simp_all add: bind_logger_as_class s2_def)
    show ?thesis
    proof (cases re)
      case (Inl e)
      with tf cf Inr le w2 f2 show ?thesis
        by (simp add: Experiment_perform_experiment_def in_world_as_class Let_def
            lg_def[symmetric] s2_def[symmetric] bind_logger_as_class files_update_as_class)
    next
      case ok: (Inr u)
      define s3 where "s3 = s2\<lparr>files := log_benchmarks (benchmarks_yaml env (world s2)) lg fs\<rparr>"
      have c3: "cls (obj s3) = OptimisationExperiment"
        using c1 by (simp add: s3_def s2_def bind_logger_def)
      note loop = while_loop_alias[OF c3, of env log_data fuel 0]
      from tf cf Inr le ok
      have plain: "Experiment_perform_experiment env log_data fuel s =
          (case while_loop env log_data fuel 0 s3 of
             None \<Rightarrow> None
           | Some (Inl e, s4) \<Rightarrow> Some (Inl e, s4)
           | Some (Inr u, s4) \<Rightarrow> Some (del_logger s4))"
        by (simp add: Experiment_perform_experiment_def Let_def
            lg_def[symmetric] s2_def[symmetric] s3_def[symmetric])
      from tf cf Inr le ok w2 f2
      have aliased: "Experiment_perform_experiment env log_data fuel
                     (as_class OptimizationExperiment s) =
          (case while_loop env log_data fuel 0 (as_class OptimizationExperiment s3) of
             None \<Rightarrow> None
           | Some (Inl e, s4) \<Rightarrow> Some (Inl e, s4)
           | Some (Inr u, s4) \<Rightarrow> Some (del_logger s4))"
        by (simp add: Experiment_perform_experiment_def in_world_as_class Let_def
            lg_def[symmetric] s2_def[symmetric] bind_logger_as_class files_update_as_class
            s3_def[symmetric])
      show ?thesis
        unfolding plain aliased
        using loop
        by (auto simp: del_logger_as_class split: option.splits sum.splits prod.splits)
    qed
  qed
qed

text \<open>
  C10. A call of \<^verbatim>\<open>run\<close> on an \<^verbatim>\<open>OptimizationExperiment\<close> has the outcome of the same
  call on an \<^verbatim>\<open>OptimisationExperiment\<close> in the same state, and leaves the same state
  behind (the world of method and function, the files, the Loggers with their streams,
  the attributes of the experiment) but for the class of the instance. Every member
  resolves to the same class body for both.
\<close>

theorem OptimizationExperiment_is_OptimisationExperiment:
  "run env fuel eps absolute pat cap log_data (as_class OptimizationExperiment s)
     = map_option (map_prod id (as_class OptimizationExperiment))
         (run env fuel eps absolute pat cap log_data (as_class OptimisationExperiment s))
   \<and> resolve OptimizationExperiment m = resolve OptimisationExperiment m"
proof -
  let ?set = "\<lambda>s. s\<lparr>obj := (obj s)\<lparr>epsilon := eps, absolute_improvement := absolute,
      patience := pat, finish_line := cap, n_sampled := NoneValue, optimals := []\<rparr>\<rparr>"
  let ?t = "?set (as_class OptimisationExperiment s)"
  have c: "cls (obj ?t) = OptimisationExperiment" by (simp add: as_class_def)
  have e: "?set (as_class OptimizationExperiment s) = as_class OptimizationExperiment ?t"
    by (simp add: as_class_def)
  have "run env fuel eps absolute pat cap log_data (as_class OptimizationExperiment s)
      = Experiment_perform_experiment env log_data fuel (as_class OptimizationExperiment ?t)"
    unfolding e[symmetric]
    by (simp add: run_def resolve_run OptimisationExperiment_run_def perform_experiment_def
        resolve_perform_experiment)
  moreover have "run env fuel eps absolute pat cap log_data (as_class OptimisationExperiment s)
      = Experiment_perform_experiment env log_data fuel ?t"
    by (simp add: run_def resolve_run OptimisationExperiment_run_def perform_experiment_def
        resolve_perform_experiment)
  ultimately show ?thesis
    using Experiment_perform_experiment_alias[OF c, of env log_data fuel] resolve_alias[of m]
    by simp
qed

end
